theory Spec2Isabelle
  imports Complex_Main "HOL-Library.AList"
begin

section \<open>KANADEV: a kana quiz with mastery-weighted practice\<close>

text \<open>
  A shallow embedding of \<^verbatim>\<open>KANADEV.py\<close>: the persistence functions
  (\<^verbatim>\<open>load_progress\<close>, \<^verbatim>\<open>save_progress\<close>), the weight function
  \<^verbatim>\<open>choice_weight\<close>, the mastery update \<^verbatim>\<open>Scene._bump_mastery\<close>, the two
  selectors (\<^verbatim>\<open>Quiz.weighted_pick\<close>, \<^verbatim>\<open>TypeMode._pick\<close>) and the two answer handlers
  (\<^verbatim>\<open>Quiz.choose\<close> and the submit branch of \<^verbatim>\<open>TypeMode.handle\<close>).
  Rendering and pointer geometry are not modelled.
\<close>

subsection \<open>Python values\<close>

text \<open>
  A Python \<^verbatim>\<open>str\<close> is a list of Unicode code points, so that a kana such as
  U+3042 is one character, as it is for Python's slicing and \<^verbatim>\<open>len\<close>.
  \<open>str\<close> embeds an ASCII literal.
\<close>

type_synonym pystr = "nat list"

definition str :: "string \<Rightarrow> pystr" where
  "str s = map of_char s"

text \<open>The exceptions the modelled code can raise; \<open>Inl\<close> of a result is a raised exception.\<close>

datatype error = KeyError | IndexError | TypeError | ValueError | OverflowError | AttributeError

fun bindr :: "error + 'a \<Rightarrow> ('a \<Rightarrow> error + 'b) \<Rightarrow> error + 'b" where
  "bindr (Inl e) f = Inl e"
| "bindr (Inr x) f = f x"

text \<open>
  A Python \<^verbatim>\<open>float\<close> is modelled by the real number it denotes, or one of the three
  non-finite values. Arithmetic on finite floats is exact in the model (the rounding of
  each operation to 53 bits is not modelled); overflow to an infinity is.
\<close>

datatype pyfloat = Finite real | NaN | PosInf | NegInf

text \<open>
  What \<^verbatim>\<open>json.load\<close> returns: \<^verbatim>\<open>None\<close>, \<^verbatim>\<open>bool\<close>, \<^verbatim>\<open>int\<close>, \<^verbatim>\<open>float\<close>,
  \<^verbatim>\<open>str\<close>, \<^verbatim>\<open>list\<close> or \<^verbatim>\<open>dict\<close> (insertion ordered, keys are strings).
\<close>

datatype json =
    JNull
  | JBool bool
  | JInt int
  | JFloat pyfloat
  | JStr pystr
  | JArr "json list"
  | JObj "(pystr \<times> json) list"

text \<open>The least magnitude that rounds to an infinity in binary64.\<close>

definition float_overflow :: real where
  "float_overflow = 2 ^ 1024 - 2 ^ 970"

fun float_times10 :: "pyfloat \<Rightarrow> pyfloat" where
  "float_times10 (Finite r) =
     (if float_overflow \<le> r * 10 then PosInf
      else if r * 10 \<le> - float_overflow then NegInf
      else Finite (r * 10))"
| "float_times10 NaN = NaN"
| "float_times10 PosInf = PosInf"
| "float_times10 NegInf = NegInf"

text \<open>\<^verbatim>\<open>v <= 1\<close> for a float \<^verbatim>\<open>v\<close>.\<close>

fun float_le_one :: "pyfloat \<Rightarrow> bool" where
  "float_le_one (Finite r) = (r \<le> 1)"
| "float_le_one NaN = False"
| "float_le_one PosInf = False"
| "float_le_one NegInf = True"

text \<open>\<^verbatim>\<open>round(x)\<close> with one argument: to the nearest integer, ties to the even one.\<close>

definition round_half_even :: "real \<Rightarrow> int" where
  "round_half_even r =
     (let f = \<lfloor>r\<rfloor>; d = r - of_int f
      in if d < 1 / 2 then f
         else if 1 / 2 < d then f + 1
         else if even f then f else f + 1)"

fun py_round :: "pyfloat \<Rightarrow> error + int" where
  "py_round (Finite r) = Inr (round_half_even r)"
| "py_round NaN = Inl ValueError"
| "py_round PosInf = Inl OverflowError"
| "py_round NegInf = Inl OverflowError"

text \<open>\<^verbatim>\<open>int(x)\<close> of a float truncates towards zero.\<close>

fun py_int_float :: "pyfloat \<Rightarrow> error + int" where
  "py_int_float (Finite r) = Inr (if 0 \<le> r then \<lfloor>r\<rfloor> else \<lceil>r\<rceil>)"
| "py_int_float NaN = Inl ValueError"
| "py_int_float PosInf = Inl OverflowError"
| "py_int_float NegInf = Inl OverflowError"

text \<open>
  \<^verbatim>\<open>int(v)\<close>. The parsing of a string by the built-in \<^verbatim>\<open>int\<close> is the parameter
  \<open>si\<close>: \<open>si s = None\<close> where \<^verbatim>\<open>int(s)\<close> raises \<^verbatim>\<open>ValueError\<close>.
\<close>

fun py_int :: "(pystr \<Rightarrow> int option) \<Rightarrow> json \<Rightarrow> error + int" where
  "py_int si (JInt i) = Inr i"
| "py_int si (JBool b) = Inr (if b then 1 else 0)"
| "py_int si (JFloat x) = py_int_float x"
| "py_int si (JStr s) = (case si s of None \<Rightarrow> Inl ValueError | Some i \<Rightarrow> Inr i)"
| "py_int si JNull = Inl TypeError"
| "py_int si (JArr xs) = Inl TypeError"
| "py_int si (JObj kvs) = Inl TypeError"

subsection \<open>The random module\<close>

text \<open>
  The state of Python's global generator is a tape of raw draws; each library call
  consumes one cell. \<^verbatim>\<open>random.random()\<close> is a multiple of \<open>2\<^sup>-\<^sup>5\<^sup>3\<close> in \<open>[0, 1)\<close>.
\<close>

type_synonym rng = "nat \<Rightarrow> nat"

definition rng_next :: "rng \<Rightarrow> nat \<times> rng" where
  "rng_next g = (g 0, \<lambda>i. g (Suc i))"

definition random_random :: "rng \<Rightarrow> real \<times> rng" where
  "random_random g = (let (k, g') = rng_next g in (real (k mod 2 ^ 53) / 2 ^ 53, g'))"

definition randbelow :: "nat \<Rightarrow> rng \<Rightarrow> nat \<times> rng" where
  "randbelow n g = (let (k, g') = rng_next g in (k mod n, g'))"

text \<open>\<^verbatim>\<open>random.choice(seq)\<close> raises \<^verbatim>\<open>IndexError\<close> on an empty sequence.\<close>

definition random_choice :: "'a list \<Rightarrow> rng \<Rightarrow> error + ('a \<times> rng)" where
  "random_choice xs g =
     (if xs = [] then Inl IndexError
      else let (i, g') = randbelow (length xs) g in Inr (xs ! i, g'))"

text \<open>
  \<^verbatim>\<open>random.shuffle(x)\<close>:
  \<^verbatim>\<open>for i in reversed(range(1, len(x))): j = randbelow(i + 1); x[i], x[j] = x[j], x[i]\<close>.
\<close>

fun shuffle_loop :: "nat \<Rightarrow> 'a list \<Rightarrow> rng \<Rightarrow> 'a list \<times> rng" where
  "shuffle_loop 0 xs g = (xs, g)"
| "shuffle_loop (Suc n) xs g =
     (let (j, g') = randbelow (Suc n + 1) g
      in shuffle_loop n (xs[Suc n := xs ! j, j := xs ! Suc n]) g')"

definition random_shuffle :: "'a list \<Rightarrow> rng \<Rightarrow> 'a list \<times> rng" where
  "random_shuffle xs g = shuffle_loop (length xs - 1) xs g"

subsection \<open>Selection weight\<close>

text \<open>
  \<^verbatim>\<open>def choice_weight(mastery: int) -> float: return (6 - mastery) ** 2 + 0.01\<close>,
  with the source's comment
  \<^verbatim>\<open># Lower mastery (1) = higher weight, higher mastery (5) = lower weight\<close>.
\<close>

definition choice_weight :: "int \<Rightarrow> real" where
  "choice_weight mastery = of_int ((6 - mastery) ^ 2) + 1 / 100"

text \<open>
  The cumulative scan both selectors run over their weighted items:
  \<^verbatim>\<open>acc = 0; for k, w in items: acc += w; if r <= acc: return k\<close>.
  \<open>None\<close> is the loop running to its end without returning.
\<close>

fun pick_loop :: "('k \<times> real) list \<Rightarrow> real \<Rightarrow> real \<Rightarrow> 'k option" where
  "pick_loop [] r acc = None"
| "pick_loop ((k, w) # items) r acc =
     (let acc' = acc + w in if r \<le> acc' then Some k else pick_loop items r acc')"

subsection \<open>Progress and its file\<close>

text \<open>
  \<^verbatim>\<open>App.script_name\<close> is \<^verbatim>\<open>"hiragana"\<close> or \<^verbatim>\<open>"katakana"\<close>; \<open>script_key\<close> is the
  string, used as a key of the progress dictionary and of its \<^verbatim>\<open>best_score\<close> entry.
\<close>

datatype script = Hiragana | Katakana

fun script_key :: "script \<Rightarrow> pystr" where
  "script_key Hiragana = str ''hiragana''"
| "script_key Katakana = str ''katakana''"

definition best_score_key :: pystr where
  "best_score_key = str ''best_score''"

text \<open>
  The progress dictionary as the program holds it after \<^verbatim>\<open>load_progress\<close>: the two
  mastery dictionaries hold Python ints only (\<^verbatim>\<open>load_progress\<close> stores the result of
  \<^verbatim>\<open>max(1, min(10, int(...)))\<close> for every value, \<^verbatim>\<open>_bump_mastery\<close> stores ints), the
  values of \<^verbatim>\<open>best_score\<close> are whatever the file held, and \<open>other\<close> are the remaining
  top-level entries of the file, which are kept and written back. Dictionaries are
  association lists in insertion order.
\<close>

record progress =
  hiragana :: "(pystr \<times> int) list"
  katakana :: "(pystr \<times> int) list"
  best_score :: "(pystr \<times> json) list"
  other :: "(pystr \<times> json) list"

text \<open>\<^verbatim>\<open>progress[script]\<close> and the assignment of a mastery dictionary.\<close>

fun mastery_map :: "script \<Rightarrow> progress \<Rightarrow> (pystr \<times> int) list" where
  "mastery_map Hiragana p = hiragana p"
| "mastery_map Katakana p = katakana p"

fun set_mastery_map :: "script \<Rightarrow> (pystr \<times> int) list \<Rightarrow> progress \<Rightarrow> progress" where
  "set_mastery_map Hiragana m p = p\<lparr>hiragana := m\<rparr>"
| "set_mastery_map Katakana m p = p\<lparr>katakana := m\<rparr>"

text \<open>
  The state the last \<^verbatim>\<open>return\<close> of \<^verbatim>\<open>load_progress\<close> builds:
  \<^verbatim>\<open>{"hiragana": {}, "katakana": {}, "best_score": {"hiragana": 0, "katakana": 0}}\<close>.
\<close>

definition default_progress :: progress where
  "default_progress =
     \<lparr>hiragana = [], katakana = [],
      best_score = [(script_key Hiragana, JInt 0), (script_key Katakana, JInt 0)],
      other = []\<rparr>"

text \<open>
  The save file: absent, present but not openable, present with text that
  \<^verbatim>\<open>json.load\<close> rejects, or present with a document that \<^verbatim>\<open>json.load\<close> returns
  as the given value. \<^verbatim>\<open>json.dump\<close> followed by \<^verbatim>\<open>json.load\<close> is taken to return the
  value dumped.
\<close>

datatype savefile = Absent | Unreadable | Garbage | Doc json

text \<open>
  What happens to a write: it succeeds; \<^verbatim>\<open>open\<close> raises and the file stays as it was;
  or \<^verbatim>\<open>open\<close> has truncated the file and \<^verbatim>\<open>json.dump\<close> raises part-way (an I/O error, or
  a string that the UTF-8 encoder rejects), leaving text that does not parse.
\<close>

datatype write_outcome = WriteOk | OpenFails | WriteFails

text \<open>\<^verbatim>\<open>d.setdefault(k, v)\<close> and the attribute access that fails on anything but a dict.\<close>

definition dict_setdefault :: "pystr \<Rightarrow> json \<Rightarrow> (pystr \<times> json) list \<Rightarrow> (pystr \<times> json) list" where
  "dict_setdefault k v d = (case map_of d k of None \<Rightarrow> d @ [(k, v)] | Some x \<Rightarrow> d)"

fun as_dict :: "json \<Rightarrow> error + (pystr \<times> json) list" where
  "as_dict (JObj d) = Inr d"
| "as_dict v = Inl AttributeError"

definition getitem :: "(pystr \<times> 'v) list \<Rightarrow> pystr \<Rightarrow> error + 'v" where
  "getitem d k = (case map_of d k of None \<Rightarrow> Inl KeyError | Some v \<Rightarrow> Inr v)"

text \<open>
  The value stored for one item by the loop of \<^verbatim>\<open>load_progress\<close>:
  \<^verbatim>\<open>max(1, min(10, int(round(float(v) * 10)) if isinstance(v, float) and v <= 1 else int(v)))\<close>.
  The conditional expression is the second argument of \<^verbatim>\<open>min\<close>.
\<close>

definition load_mastery :: "(pystr \<Rightarrow> int option) \<Rightarrow> json \<Rightarrow> error + int" where
  "load_mastery si v =
     bindr (case v of
              JFloat x \<Rightarrow> if float_le_one x then py_round (float_times10 x) else py_int si v
            | _ \<Rightarrow> py_int si v)
       (\<lambda>n. Inr (max 1 (min 10 n)))"

text \<open>
  \<^verbatim>\<open>for k, v in data[script].items(): data[script][k] = ...\<close>: every value is replaced
  under its own key; the first value that cannot be converted raises.
\<close>

fun load_items :: "(pystr \<Rightarrow> int option) \<Rightarrow> (pystr \<times> json) list \<Rightarrow> error + (pystr \<times> int) list" where
  "load_items si [] = Inr []"
| "load_items si ((k, v) # items) =
     bindr (load_mastery si v) (\<lambda>n. bindr (load_items si items) (\<lambda>rest. Inr ((k, n) # rest)))"

definition load_script :: "(pystr \<Rightarrow> int option) \<Rightarrow> (pystr \<times> json) list \<Rightarrow> script \<Rightarrow> error + (pystr \<times> int) list" where
  "load_script si d s = bindr (bindr (getitem d (script_key s)) as_dict) (load_items si)"

definition reserved_key :: "pystr \<Rightarrow> bool" where
  "reserved_key k = (k = script_key Hiragana \<or> k = script_key Katakana \<or> k = best_score_key)"

text \<open>The body of the \<^verbatim>\<open>try\<close> block of \<^verbatim>\<open>load_progress\<close>, from the parsed document on.\<close>

definition load_data :: "(pystr \<Rightarrow> int option) \<Rightarrow> json \<Rightarrow> error + progress" where
  "load_data si data =
     bindr (as_dict data) (\<lambda>d0.
       let d1 = dict_setdefault (script_key Hiragana) (JObj []) d0;
           d2 = dict_setdefault (script_key Katakana) (JObj []) d1
       in bindr (load_script si d2 Hiragana) (\<lambda>h.
          bindr (load_script si d2 Katakana) (\<lambda>k.
            let d3 = dict_setdefault best_score_key
                       (JObj [(script_key Hiragana, JInt 0), (script_key Katakana, JInt 0)]) d2
            in bindr (bindr (getitem d3 best_score_key) as_dict) (\<lambda>b.
                 Inr \<lparr>hiragana = h, katakana = k,
                      best_score = dict_setdefault (script_key Katakana) (JInt 0)
                                     (dict_setdefault (script_key Hiragana) (JInt 0) b),
                      other = filter (\<lambda>kv. \<not> reserved_key (fst kv)) d3\<rparr>))))"

text \<open>
  \<^verbatim>\<open>load_progress\<close>: any exception inside the \<^verbatim>\<open>try\<close> block is caught and the
  default state is returned.
\<close>

definition load_progress :: "(pystr \<Rightarrow> int option) \<Rightarrow> savefile \<Rightarrow> progress" where
  "load_progress si f =
     (case f of
        Absent \<Rightarrow> default_progress
      | Unreadable \<Rightarrow> default_progress
      | Garbage \<Rightarrow> default_progress
      | Doc data \<Rightarrow> (case load_data si data of Inl e \<Rightarrow> default_progress | Inr p \<Rightarrow> p))"

text \<open>The document \<^verbatim>\<open>json.dump(progress, f, ...)\<close> writes.\<close>

definition dump_progress :: "progress \<Rightarrow> json" where
  "dump_progress p =
     JObj ([(script_key Hiragana, JObj (map (\<lambda>kv. (fst kv, JInt (snd kv))) (hiragana p))),
            (script_key Katakana, JObj (map (\<lambda>kv. (fst kv, JInt (snd kv))) (katakana p))),
            (best_score_key, JObj (best_score p))] @ other p)"

text \<open>\<^verbatim>\<open>save_progress\<close>: any exception is swallowed.\<close>

definition save_progress :: "write_outcome \<Rightarrow> progress \<Rightarrow> savefile \<Rightarrow> savefile" where
  "save_progress w p f =
     (case w of WriteOk \<Rightarrow> Doc (dump_progress p) | OpenFails \<Rightarrow> f | WriteFails \<Rightarrow> Garbage)"

subsection \<open>String methods\<close>

text \<open>
  \<^verbatim>\<open>str.isspace\<close> per character, \<^verbatim>\<open>str.strip()\<close>, \<^verbatim>\<open>str.replace(" ", "")\<close>.
  \<^verbatim>\<open>str.lower()\<close> and \<^verbatim>\<open>str.upper()\<close> are modelled on the ASCII letters, which is
  all that romaji contains; the case mapping of other scripts is not modelled.
\<close>

definition py_isspace :: "nat \<Rightarrow> bool" where
  "py_isspace c =
     ((9 \<le> c \<and> c \<le> 13) \<or> (28 \<le> c \<and> c \<le> 32) \<or> c = 133 \<or> c = 160 \<or> c = 5760
      \<or> (8192 \<le> c \<and> c \<le> 8202) \<or> c = 8232 \<or> c = 8233 \<or> c = 8239 \<or> c = 8287
      \<or> c = 12288)"

definition py_strip :: "pystr \<Rightarrow> pystr" where
  "py_strip s = rev (dropWhile py_isspace (rev (dropWhile py_isspace s)))"

definition lower_char :: "nat \<Rightarrow> nat" where
  "lower_char c = (if 65 \<le> c \<and> c \<le> 90 then c + 32 else c)"

definition upper_char :: "nat \<Rightarrow> nat" where
  "upper_char c = (if 97 \<le> c \<and> c \<le> 122 then c - 32 else c)"

definition py_lower :: "pystr \<Rightarrow> pystr" where
  "py_lower s = map lower_char s"

definition py_upper :: "pystr \<Rightarrow> pystr" where
  "py_upper s = map upper_char s"

definition remove_spaces :: "pystr \<Rightarrow> pystr" where
  "remove_spaces s = filter (\<lambda>c. c \<noteq> 32) s"

text \<open>\<^verbatim>\<open>xs.index(x)\<close>: the first position of \<open>x\<close>, \<^verbatim>\<open>ValueError\<close> when there is none.\<close>

fun list_index :: "'a list \<Rightarrow> 'a \<Rightarrow> error + nat" where
  "list_index [] x = Inl ValueError"
| "list_index (y # ys) x =
     (if y = x then Inr 0 else bindr (list_index ys x) (\<lambda>i. Inr (Suc i)))"

subsection \<open>The application object\<close>

text \<open>
  \<^verbatim>\<open>App\<close>: the active script, the progress dictionary and the kana table
  (\<^verbatim>\<open>HIRAGANA\<close> or \<^verbatim>\<open>KATAKANA\<close>, a dictionary from kana to romaji). The state of the
  random module and the save file are process-wide in the source; they are carried
  here so that every function is a function of what it reads.
\<close>

record app =
  script_name :: script
  progress :: progress
  table :: "(pystr \<times> pystr) list"
  rng :: rng
  disk :: savefile

text \<open>
  \<^verbatim>\<open>Scene._bump_mastery\<close>:
  \<^verbatim>\<open>prog = self.app.progress[self.app.script_name]; cur = int(prog.get(kana, 1));\<close>
  \<^verbatim>\<open>cur = max(1, min(10, cur + delta)); prog[kana] = cur\<close>.
\<close>

definition bump_mastery :: "pystr \<Rightarrow> int \<Rightarrow> app \<Rightarrow> app" where
  "bump_mastery kana delta a =
     (let prog = mastery_map (script_name a) (progress a);
          cur = (case map_of prog kana of None \<Rightarrow> 1 | Some m \<Rightarrow> m);
          cur' = max 1 (min 10 (cur + delta))
      in a\<lparr>progress := set_mastery_map (script_name a) (AList.update kana cur' prog) (progress a)\<rparr>)"

text \<open>\<^verbatim>\<open>score > best\<close> for an int \<^verbatim>\<open>score\<close> and a stored value of any JSON type.\<close>

fun py_int_gt :: "int \<Rightarrow> json \<Rightarrow> error + bool" where
  "py_int_gt n (JInt b) = Inr (b < n)"
| "py_int_gt n (JBool b) = Inr ((if b then 1 else 0) < n)"
| "py_int_gt n (JFloat (Finite r)) = Inr (r < of_int n)"
| "py_int_gt n (JFloat NaN) = Inr False"
| "py_int_gt n (JFloat PosInf) = Inr False"
| "py_int_gt n (JFloat NegInf) = Inr True"
| "py_int_gt n JNull = Inl TypeError"
| "py_int_gt n (JStr s) = Inl TypeError"
| "py_int_gt n (JArr xs) = Inl TypeError"
| "py_int_gt n (JObj kvs) = Inl TypeError"

text \<open>
  The two lines both answer handlers run after a correct answer:
  \<^verbatim>\<open>if self.score > self.app.progress["best_score"][script]:\<close>
  \<^verbatim>\<open>    self.app.progress["best_score"][script] = self.score\<close>.
\<close>

definition update_best :: "int \<Rightarrow> app \<Rightarrow> error + app" where
  "update_best sc a =
     bindr (getitem (best_score (progress a)) (script_key (script_name a))) (\<lambda>b.
     bindr (py_int_gt sc b) (\<lambda>gt.
       Inr (if gt
            then a\<lparr>progress := (progress a)\<lparr>best_score :=
                   AList.update (script_key (script_name a)) (JInt sc) (best_score (progress a))\<rparr>\<rparr>
            else a)))"

text \<open>\<^verbatim>\<open>save_progress(self.app.progress)\<close> as a step of the application state.\<close>

definition app_save :: "write_outcome \<Rightarrow> app \<Rightarrow> app" where
  "app_save w a = a\<lparr>disk := save_progress w (progress a) (disk a)\<rparr>"

text \<open>The stored best score of a script: \<^verbatim>\<open>progress["best_score"].get(script)\<close>.\<close>

definition stored_best :: "script \<Rightarrow> app \<Rightarrow> json option" where
  "stored_best s a = map_of (best_score (progress a)) (script_key s)"

text \<open>The stored mastery of a kana, 1 when unseen: \<^verbatim>\<open>progress[script].get(kana, 1)\<close>.\<close>

definition mastery :: "script \<Rightarrow> pystr \<Rightarrow> app \<Rightarrow> int" where
  "mastery s kana a =
     (case map_of (mastery_map s (progress a)) kana of None \<Rightarrow> 1 | Some m \<Rightarrow> m)"

subsection \<open>The quiz scene\<close>

text \<open>
  The attributes of \<^verbatim>\<open>Quiz\<close> that its selection and answer code uses. \<open>kana\<close> is a
  string: \<^verbatim>\<open>__init__\<close> ends with \<^verbatim>\<open>pick_question()\<close>, which stores a key of the table.
  \<open>kana_groups\<close> are the labelled membership tests, \<open>buttons\<close> the four labels.
\<close>

record quiz =
  app :: app
  score :: int
  streak :: int
  rounds :: int
  feedback :: pystr
  feedback_timer :: int
  choices :: "(pystr \<times> pystr) list"
  correct_idx :: nat
  kana :: pystr
  kana_groups :: "(pystr \<times> (pystr \<Rightarrow> bool)) list"
  selected_groups :: "bool list"
  buttons :: "pystr list"

text \<open>
  \<^verbatim>\<open>Quiz._filtered_kana\<close>:
  \<^verbatim>\<open>filters = [f for sel, (_, f) in zip(self.selected_groups, self.kana_groups) if sel]\<close>,
  \<^verbatim>\<open>[]\<close> without filters, else the table's keys that some filter accepts.
\<close>

definition quiz_filtered_kana :: "quiz \<Rightarrow> pystr list" where
  "quiz_filtered_kana q =
     (let filters = map (\<lambda>sg. snd (snd sg))
                      (filter fst (zip (quiz.selected_groups q) (quiz.kana_groups q)))
      in if filters = [] then []
         else filter (\<lambda>k. list_ex (\<lambda>f. f k) filters) (map fst (table (quiz.app q))))"

text \<open>
  The weighted items of a candidate list:
  \<^verbatim>\<open>(k, choice_weight(int(prog.get(k, 1))))\<close> for each candidate.
\<close>

definition weighted_items :: "app \<Rightarrow> pystr list \<Rightarrow> (pystr \<times> real) list" where
  "weighted_items a ks = map (\<lambda>k. (k, choice_weight (mastery (script_name a) k a))) ks"

text \<open>
  \<^verbatim>\<open>Quiz.weighted_pick\<close>: without candidates, \<^verbatim>\<open>random.choice\<close> over all keys of the
  table; else the cumulative scan with \<^verbatim>\<open>r = random.random() * total\<close>, and the last
  item when the scan ends. The result comes with the generator's next state.
\<close>

definition weighted_pick :: "quiz \<Rightarrow> error + (pystr \<times> rng)" where
  "weighted_pick q =
     (let a = quiz.app q; kana_list = quiz_filtered_kana q
      in if kana_list = [] then random_choice (map fst (table a)) (rng a)
         else let items = weighted_items a kana_list;
                  total = sum_list (map snd items);
                  (u, g') = random_random (rng a);
                  r = u * total
              in Inr (case pick_loop items r 0 of Some k \<Rightarrow> k | None \<Rightarrow> fst (last items), g'))"

text \<open>
  \<^verbatim>\<open>Quiz.pick_question\<close>. \<^verbatim>\<open>list(set(table.values()))\<close> is the distinct romaji in some
  order, here the order \<open>remdups\<close> gives. The loop over the four buttons reads
  \<^verbatim>\<open>opts[i]\<close> for each, which raises when there are fewer than four options.
\<close>

definition pick_question :: "quiz \<Rightarrow> error + quiz" where
  "pick_question q =
     bindr (weighted_pick q) (\<lambda>(k, g1).
     bindr (getitem (table (quiz.app q)) k) (\<lambda>correct_romaji.
       let all_romaji = remdups (map snd (table (quiz.app q)));
           wrongs = filter (\<lambda>r. r \<noteq> correct_romaji) all_romaji;
           (wrongs', g2) = random_shuffle wrongs g1;
           (opts, g3) = random_shuffle (correct_romaji # take 3 wrongs') g2
       in bindr (list_index opts correct_romaji) (\<lambda>i.
            if length opts < 4 then Inl IndexError
            else Inr (q\<lparr>quiz.app := (quiz.app q)\<lparr>rng := g3\<rparr>,
                        quiz.kana := k,
                        quiz.correct_idx := i,
                        quiz.choices := map (\<lambda>r. (k, r)) opts,
                        quiz.buttons := map py_upper opts\<rparr>))))"

text \<open>
  \<^verbatim>\<open>Quiz.choose(idx)\<close> (the name \<open>choose\<close> is taken by the binomial coefficient);
  \<open>w\<close> is what happens to the write of \<^verbatim>\<open>save_progress\<close>.
\<close>

definition quiz_choose :: "write_outcome \<Rightarrow> nat \<Rightarrow> quiz \<Rightarrow> error + quiz" where
  "quiz_choose w idx q =
     bindr
       (if idx = quiz.correct_idx q
        then (let q1 = q\<lparr>quiz.streak := quiz.streak q + 1\<rparr>;
                  q2 = q1\<lparr>quiz.score := quiz.streak q1\<rparr>
              in bindr (update_best (quiz.score q2) (quiz.app q2)) (\<lambda>a.
                   Inr (q2\<lparr>quiz.feedback := str ''Correct'',
                           quiz.app := bump_mastery (quiz.kana q2) 1 a\<rparr>)))
        else (let q1 = q\<lparr>quiz.streak := 0, quiz.score := 0\<rparr>
              in bindr (getitem (table (quiz.app q1)) (quiz.kana q1)) (\<lambda>romaji.
                   Inr (q1\<lparr>quiz.feedback := romaji,
                           quiz.app := bump_mastery (quiz.kana q1) (- 1) (quiz.app q1)\<rparr>))))
       (\<lambda>q3. pick_question
               (q3\<lparr>quiz.feedback_timer := 45,
                   quiz.app := app_save w (quiz.app q3),
                   quiz.rounds := quiz.rounds q3 + 1\<rparr>))"


subsection \<open>The typing scene\<close>

text \<open>
  The attributes of \<^verbatim>\<open>TypeMode\<close> that its selection and submit code uses;
  \<open>input_text\<close> is \<^verbatim>\<open>self.input.text\<close>. \<open>kana\<close> and \<open>word\<close> start as \<^verbatim>\<open>None\<close>.
  The word list holds the strings of \<^verbatim>\<open>words.json\<close> for the active script.
\<close>

record typemode =
  app :: app
  score :: int
  streak :: int
  feedback :: pystr
  feedback_timer :: int
  feedback_color :: "nat \<times> nat \<times> nat"
  input_text :: pystr
  kana_groups :: "(pystr \<times> (pystr \<Rightarrow> bool)) list"
  selected_groups :: "bool list"
  kana_list :: "pystr list"
  kana :: "pystr option"
  word_mode :: bool
  word_list :: "pystr list"
  word :: "pystr option"
  word_romaji :: pystr

definition OK :: "nat \<times> nat \<times> nat" where
  "OK = (90, 207, 140)"

definition WARN :: "nat \<times> nat \<times> nat" where
  "WARN = (255, 120, 120)"

text \<open>\<^verbatim>\<open>TypeMode._filtered_kana\<close>: as in the quiz, over the first three groups.\<close>

definition typemode_filtered_kana :: "typemode \<Rightarrow> pystr list" where
  "typemode_filtered_kana t =
     (let filters = map (\<lambda>sg. snd (snd sg))
                      (filter fst (zip (take 3 (typemode.selected_groups t))
                                       (take 3 (typemode.kana_groups t))))
      in if filters = [] then []
         else filter (\<lambda>k. list_ex (\<lambda>f. f k) filters) (map fst (table (typemode.app t))))"

text \<open>
  \<^verbatim>\<open>TypeMode._pick\<close>: the cumulative scan over \<^verbatim>\<open>self.kana_list\<close>, then
  \<^verbatim>\<open>return items[-1][0] if items else None\<close>. One draw is consumed in every case.
\<close>

definition pick :: "typemode \<Rightarrow> pystr option \<times> rng" where
  "pick t =
     (let a = typemode.app t;
          items = weighted_items a (kana_list t);
          total = sum_list (map snd items);
          (u, g') = random_random (rng a);
          x = u * total
      in (case pick_loop items x 0 of
            Some k \<Rightarrow> Some k
          | None \<Rightarrow> if items \<noteq> [] then Some (fst (last items)) else None, g'))"

text \<open>
  \<^verbatim>\<open>TypeMode.kana_to_romaji\<close>: a two-character key of the table is tried before a
  one-character key; a character that is no key is copied.
\<close>

fun kana_to_romaji :: "(pystr \<times> pystr) list \<Rightarrow> pystr \<Rightarrow> pystr" where
  "kana_to_romaji tb [] = []"
| "kana_to_romaji tb [c] = (case map_of tb [c] of Some r \<Rightarrow> r | None \<Rightarrow> [c])"
| "kana_to_romaji tb (c # d # rest) =
     (case map_of tb [c, d] of
        Some r \<Rightarrow> r @ kana_to_romaji tb rest
      | None \<Rightarrow>
          (case map_of tb [c] of
             Some r \<Rightarrow> r @ kana_to_romaji tb (d # rest)
           | None \<Rightarrow> c # kana_to_romaji tb (d # rest)))"

text \<open>\<^verbatim>\<open>TypeMode.pick_word\<close>.\<close>

definition pick_word :: "typemode \<Rightarrow> error + typemode" where
  "pick_word t =
     bindr (random_choice (word_list t) (rng (typemode.app t))) (\<lambda>(wd, g').
       Inr (t\<lparr>word := Some wd,
              word_romaji := kana_to_romaji (table (typemode.app t)) wd,
              typemode.app := (typemode.app t)\<lparr>rng := g'\<rparr>\<rparr>))"

text \<open>\<^verbatim>\<open>guess = self.input.text.strip().lower().replace(" ", "")\<close>.\<close>

definition guess_of :: "pystr \<Rightarrow> pystr" where
  "guess_of text = remove_spaces (py_lower (py_strip text))"

text \<open>
  The block of \<^verbatim>\<open>TypeMode.handle\<close> under \<^verbatim>\<open>if res == "submit":\<close>, that is what the
  scene does when Enter is pressed while it is not selecting groups. \<^verbatim>\<open>not self.word\<close>
  holds for \<^verbatim>\<open>None\<close> and for the empty string.
\<close>

definition handle_submit :: "write_outcome \<Rightarrow> typemode \<Rightarrow> error + typemode" where
  "handle_submit w t =
     (let guess = guess_of (input_text t)
      in if word_mode t
         then (let correct = remove_spaces (word_romaji t);
                   t1 = (if word t = None \<or> word t = Some []
                         then t\<lparr>typemode.feedback := str ''No words available!'',
                                feedback_color := (255, 255, 255),
                                typemode.feedback_timer := 60\<rparr>
                         else if guess = correct
                         then (let t' = t\<lparr>typemode.streak := typemode.streak t + 1\<rparr>
                               in t'\<lparr>typemode.score := typemode.streak t',
                                     typemode.feedback := str ''CORRECT'',
                                     feedback_color := OK\<rparr>)
                         else t\<lparr>typemode.streak := 0, typemode.score := 0,
                                typemode.feedback := word_romaji t,
                                feedback_color := WARN\<rparr>);
                   t2 = t1\<lparr>typemode.feedback_timer := 45\<rparr>
               in bindr (if word_list t2 \<noteq> [] then pick_word t2 else Inr t2) (\<lambda>t3.
                    Inr (t3\<lparr>input_text := []\<rparr>)))
         else (case typemode.kana t of
                 None \<Rightarrow> Inl KeyError
               | Some k \<Rightarrow>
                   bindr (getitem (table (typemode.app t)) k) (\<lambda>correct.
                   bindr
                     (if guess = correct
                      then (let t' = t\<lparr>typemode.streak := typemode.streak t + 1\<rparr>;
                                t'' = t'\<lparr>typemode.score := typemode.streak t'\<rparr>
                            in bindr (update_best (typemode.score t'') (typemode.app t'')) (\<lambda>a.
                                 Inr (t''\<lparr>typemode.feedback := str ''CORRECT'',
                                         feedback_color := OK,
                                         typemode.app := bump_mastery k 1 a\<rparr>)))
                      else Inr (t\<lparr>typemode.streak := 0, typemode.score := 0,
                                   typemode.feedback := correct,
                                   feedback_color := WARN,
                                   typemode.app := bump_mastery k (- 1) (typemode.app t)\<rparr>))
                     (\<lambda>t1. let t2 = t1\<lparr>typemode.feedback_timer := 45,
                                        typemode.app := app_save w (typemode.app t1)\<rparr>;
                                (k', g') = pick t2
                            in Inr (t2\<lparr>typemode.kana := k',
                                      typemode.app := (typemode.app t2)\<lparr>rng := g'\<rparr>,
                                      input_text := []\<rparr>)))))"


subsection \<open>States the claims speak about\<close>

text \<open>The stored best score of a script when it is an integer.\<close>

definition best_int :: "script \<Rightarrow> app \<Rightarrow> int option" where
  "best_int s a = (case stored_best s a of Some (JInt b) \<Rightarrow> Some b | _ \<Rightarrow> None)"


text \<open>
  A quiz that shows a question: the kana shown is a key of the table, the table has
  four distinct romaji (as both tables of the source have, one for each button), and the
  best score of the active script is an integer.
\<close>

definition quiz_ready :: "quiz \<Rightarrow> bool" where
  "quiz_ready q =
     (4 \<le> length (remdups (map snd (table (quiz.app q))))
      \<and> map_of (table (quiz.app q)) (quiz.kana q) \<noteq> None
      \<and> best_int (script_name (quiz.app q)) (quiz.app q) \<noteq> None)"

text \<open>
  A typing scene that shows a kana: it is not in word mode, its candidates are keys of
  the table and there is one, the kana shown is a key of the table, and the best score
  of the active script is an integer.
\<close>

definition type_ready :: "typemode \<Rightarrow> bool" where
  "type_ready t =
     (\<not> word_mode t
      \<and> kana_list t \<noteq> []
      \<and> list_all (\<lambda>k. map_of (table (typemode.app t)) k \<noteq> None) (kana_list t)
      \<and> (case typemode.kana t of
            None \<Rightarrow> False
          | Some k \<Rightarrow> map_of (table (typemode.app t)) k \<noteq> None)
      \<and> best_int (script_name (typemode.app t)) (typemode.app t) \<noteq> None)"

text \<open>
  Concrete states for evaluation: the first four rows of \<^verbatim>\<open>HIRAGANA\<close>
  (U+3042 \<^verbatim>\<open>a\<close>, U+3044 \<^verbatim>\<open>i\<close>, U+3046 \<^verbatim>\<open>u\<close>, U+3048 \<^verbatim>\<open>e\<close>), a fresh application
  with the default progress, a quiz and a typing scene asking for U+3042.
\<close>

definition demo_table :: "(pystr \<times> pystr) list" where
  "demo_table = [([12354], str ''a''), ([12356], str ''i''), ([12358], str ''u''), ([12360], str ''e'')]"

definition demo_app :: app where
  "demo_app = \<lparr>script_name = Hiragana, progress = default_progress, table = demo_table,
                rng = (\<lambda>i. 0), disk = Absent\<rparr>"

definition demo_quiz :: quiz where
  "demo_quiz = \<lparr>quiz.app = demo_app, score = 0, streak = 0, rounds = 0, feedback = [],
                 feedback_timer = 0, choices = [], correct_idx = 0, kana = [12354],
                 kana_groups = [(str ''BASIC'', \<lambda>k. True)], selected_groups = [True],
                 buttons = []\<rparr>"

definition demo_type :: typemode where
  "demo_type = \<lparr>typemode.app = demo_app, score = 0, streak = 0, feedback = [],
                 feedback_timer = 0, feedback_color = (255, 255, 255), input_text = [],
                 kana_groups = [(str ''BASIC'', \<lambda>k. True)], selected_groups = [True],
                 kana_list = [[12354], [12356]], kana = Some [12354], word_mode = False,
                 word_list = [], word = None, word_romaji = []\<rparr>"

section \<open>Properties\<close>

subsection \<open>The weight function\<close>

lemma choice_weight_pos: "0 < choice_weight m"
  by (simp add: choice_weight_def add_nonneg_pos)

lemma choice_weight_decreasing: "m < n \<Longrightarrow> n \<le> 6 \<Longrightarrow> choice_weight n < choice_weight m"
proof -
  assume a: "m < n" "n \<le> 6"
  then have "0 \<le> 6 - n" "6 - n < 6 - m" by simp_all
  then have "(6 - n) ^ 2 < (6 - m) ^ 2" by (simp add: power_strict_mono)
  then have "(of_int ((6 - n) ^ 2) :: real) < of_int ((6 - m) ^ 2)"
    by (simp only: of_int_less_iff)
  then show ?thesis unfolding choice_weight_def by linarith
qed

lemma choice_weight_increasing: "6 \<le> m \<Longrightarrow> m < n \<Longrightarrow> choice_weight m < choice_weight n"
proof -
  assume a: "6 \<le> m" "m < n"
  then have "0 \<le> m - 6" "m - 6 < n - 6" by simp_all
  then have "(m - 6) ^ 2 < (n - 6) ^ 2" by (simp add: power_strict_mono)
  then have "(6 - m) ^ 2 < (6 - n) ^ 2" by (simp add: power2_commute)
  then have "(of_int ((6 - m) ^ 2) :: real) < of_int ((6 - n) ^ 2)"
    by (simp only: of_int_less_iff)
  then show ?thesis unfolding choice_weight_def by linarith
qed

subsection \<open>Keys and fields\<close>

lemma script_key_neq [simp]:
  "script_key Hiragana \<noteq> script_key Katakana"
  "script_key Katakana \<noteq> script_key Hiragana"
  "script_key s \<noteq> best_score_key"
  "best_score_key \<noteq> script_key s"
  by (cases s; simp add: str_def best_score_key_def)+

lemma script_key_inj [simp]: "(script_key s = script_key s') = (s = s')"
  by (cases s; cases s'; simp add: str_def)

lemma mastery_map_set [simp]:
  "mastery_map s (set_mastery_map s' m p) = (if s = s' then m else mastery_map s p)"
  by (cases s; cases s'; simp)

lemma best_score_set_mastery_map [simp]: "best_score (set_mastery_map s m p) = best_score p"
  by (cases s; simp)

lemma other_set_mastery_map [simp]: "other (set_mastery_map s m p) = other p"
  by (cases s; simp)

lemma mastery_map_best_score_update [simp]: "mastery_map s (p\<lparr>best_score := b\<rparr>) = mastery_map s p"
  by (cases s; simp)

subsection \<open>The mastery update and the best score\<close>

lemma bump_mastery_fields [simp]:
  "script_name (bump_mastery k d a) = script_name a"
  "table (bump_mastery k d a) = table a"
  "rng (bump_mastery k d a) = rng a"
  "disk (bump_mastery k d a) = disk a"
  "best_score (progress (bump_mastery k d a)) = best_score (progress a)"
  by (simp_all add: bump_mastery_def Let_def)

lemma mastery_bump:
  "mastery s k' (bump_mastery k d a) =
     (if s = script_name a \<and> k' = k then max 1 (min 10 (mastery s k a + d)) else mastery s k' a)"
  by (simp add: mastery_def bump_mastery_def Let_def update_conv')

lemma stored_best_bump [simp]: "stored_best s (bump_mastery k d a) = stored_best s a"
  by (simp add: stored_best_def)

lemma app_save_fields [simp]:
  "script_name (app_save w a) = script_name a"
  "table (app_save w a) = table a"
  "rng (app_save w a) = rng a"
  "progress (app_save w a) = progress a"
  by (simp_all add: app_save_def)

lemma mastery_app_save [simp]: "mastery s k (app_save w a) = mastery s k a"
  by (simp add: mastery_def)

lemma stored_best_app_save [simp]: "stored_best s (app_save w a) = stored_best s a"
  by (simp add: stored_best_def)

lemma update_best_fields:
  assumes "update_best sc a = Inr a'"
  shows "script_name a' = script_name a" "table a' = table a" "rng a' = rng a" "disk a' = disk a"
    "mastery s k a' = mastery s k a"
    "mastery_map s (progress a') = mastery_map s (progress a)"
    "other (progress a') = other (progress a)"
  using assms
  by (auto simp: update_best_def getitem_def mastery_def split: option.splits sum.splits if_splits
      elim!: bindr.elims)

lemma update_best_int:
  assumes "stored_best (script_name a) a = Some (JInt b)"
  shows "\<exists>a'. update_best sc a = Inr a' \<and>
           stored_best s a' = (if s = script_name a \<and> b < sc then Some (JInt sc) else stored_best s a)"
  using assms
  by (simp add: update_best_def getitem_def stored_best_def update_conv')

lemma bindr_Inr_iff: "(bindr m f = Inr y) = (\<exists>x. m = Inr x \<and> f x = Inr y)"
  by (cases m) simp_all

lemma pick_question_shape:
  assumes "pick_question q = Inr q'"
  shows "\<exists>k g i opts. q' = q\<lparr>quiz.app := (quiz.app q)\<lparr>rng := g\<rparr>, quiz.kana := k,
            quiz.correct_idx := i, quiz.choices := map (\<lambda>r. (k, r)) opts,
            quiz.buttons := map py_upper opts\<rparr> \<and> map_of (table (quiz.app q)) k \<noteq> None"
  using assms
  by (auto simp: pick_question_def Let_def bindr_Inr_iff case_prod_beta getitem_def
      split: if_splits option.splits)

lemma pick_question_fields:
  assumes "pick_question q = Inr q'"
  shows "progress (quiz.app q') = progress (quiz.app q)"
    "script_name (quiz.app q') = script_name (quiz.app q)"
    "table (quiz.app q') = table (quiz.app q)"
    "disk (quiz.app q') = disk (quiz.app q)"
    "quiz.streak q' = quiz.streak q" "quiz.score q' = quiz.score q"
    "quiz.rounds q' = quiz.rounds q" "quiz.feedback q' = quiz.feedback q"
  using pick_question_shape[OF assms] by auto

lemma quiz_choose_Inr:
  assumes "quiz_choose w idx q = Inr q'"
  shows "\<exists>a1. (if idx = quiz.correct_idx q
               then update_best (quiz.streak q + 1) (quiz.app q) = Inr a1
               else a1 = quiz.app q \<and> map_of (table (quiz.app q)) (quiz.kana q) \<noteq> None)
          \<and> progress (quiz.app q') =
              progress (bump_mastery (quiz.kana q) (if idx = quiz.correct_idx q then 1 else - 1) a1)
          \<and> script_name (quiz.app q') = script_name (quiz.app q)
          \<and> table (quiz.app q') = table (quiz.app q)
          \<and> map_of (table (quiz.app q')) (quiz.kana q') \<noteq> None
          \<and> disk (quiz.app q') = save_progress w (progress (quiz.app q')) (disk (quiz.app q))
          \<and> quiz.streak q' = (if idx = quiz.correct_idx q then quiz.streak q + 1 else 0)
          \<and> quiz.score q' = quiz.streak q'"
proof (cases "idx = quiz.correct_idx q")
  case True
  with assms obtain a1 q3 where u: "update_best (quiz.streak q + 1) (quiz.app q) = Inr a1"
    and p: "pick_question q3 = Inr q'"
    and q3: "quiz.app q3 = app_save w (bump_mastery (quiz.kana q) 1 a1)"
      "quiz.streak q3 = quiz.streak q + 1" "quiz.score q3 = quiz.streak q + 1"
    by (auto simp: quiz_choose_def Let_def bindr_Inr_iff)
  from pick_question_shape[OF p] have "map_of (table (quiz.app q')) (quiz.kana q') \<noteq> None"
    by auto
  with update_best_fields[OF u] pick_question_fields[OF p] True u show ?thesis
    by (simp add: q3 app_save_def)
next
  case False
  with assms obtain r q3 where g: "getitem (table (quiz.app q)) (quiz.kana q) = Inr r"
    and p: "pick_question q3 = Inr q'"
    and q3: "quiz.app q3 = app_save w (bump_mastery (quiz.kana q) (- 1) (quiz.app q))"
      "quiz.streak q3 = 0" "quiz.score q3 = 0"
    by (auto simp: quiz_choose_def Let_def bindr_Inr_iff)
  from g have "map_of (table (quiz.app q)) (quiz.kana q) \<noteq> None"
    by (auto simp: getitem_def split: option.splits)
  moreover from pick_question_shape[OF p]
  have "map_of (table (quiz.app q')) (quiz.kana q') \<noteq> None" by auto
  ultimately show ?thesis using pick_question_fields[OF p] False
    by (simp add: q3 app_save_def)
qed

subsection \<open>Shuffling, choosing and the quiz's selection\<close>

lemma randbelow_less: "0 < n \<Longrightarrow> fst (randbelow n g) < n"
  by (simp add: randbelow_def rng_next_def)

lemma shuffle_loop_length: "length (fst (shuffle_loop n xs g)) = length xs"
  by (induction n arbitrary: xs g) (simp_all add: case_prod_beta)

lemma shuffle_loop_set: "n < length xs \<Longrightarrow> set (fst (shuffle_loop n xs g)) = set xs"
proof (induction n arbitrary: xs g)
  case 0
  then show ?case by simp
next
  case (Suc n)
  let ?j = "fst (randbelow (Suc n + 1) g)"
  have "?j < Suc n + 1" by (rule randbelow_less) simp
  with Suc.prems have j: "?j < length xs" by simp
  have "set (xs[Suc n := xs ! ?j, ?j := xs ! Suc n]) = set xs"
    using Suc.prems j by simp
  moreover have "n < length (xs[Suc n := xs ! ?j, ?j := xs ! Suc n])"
    using Suc.prems by simp
  ultimately show ?case
    using Suc.IH[of "xs[Suc n := xs ! ?j, ?j := xs ! Suc n]" "snd (randbelow (Suc n + 1) g)"]
    by (simp add: case_prod_beta)
qed

lemma random_shuffle_length: "length (fst (random_shuffle xs g)) = length xs"
  by (simp add: random_shuffle_def shuffle_loop_length)

lemma random_shuffle_set: "set (fst (random_shuffle xs g)) = set xs"
  by (cases xs) (simp_all add: random_shuffle_def shuffle_loop_set)

lemma random_choice_mem:
  "xs \<noteq> [] \<Longrightarrow> \<exists>x g'. random_choice xs g = Inr (x, g') \<and> x \<in> set xs"
  by (simp add: random_choice_def case_prod_beta randbelow_less)

lemma list_index_mem: "x \<in> set xs \<Longrightarrow> \<exists>i. list_index xs x = Inr i \<and> i < length xs \<and> xs ! i = x"
  by (induction xs) auto

lemma pick_loop_mem: "pick_loop items r acc = Some k \<Longrightarrow> k \<in> fst ` set items"
  by (induction items r acc rule: pick_loop.induct) (auto simp: Let_def split: if_splits)

lemma map_of_keys: "(map_of tb k \<noteq> None) = (k \<in> set (map fst tb))"
  by (simp add: map_of_eq_None_iff)

lemma weighted_items_keys [simp]: "map fst (weighted_items a ks) = ks"
  by (simp add: weighted_items_def comp_def)

lemma weighted_items_key_set [simp]: "fst ` set (weighted_items a ks) = set ks"
  by (simp add: weighted_items_def image_image)

lemma weighted_items_Nil [simp]: "(weighted_items a ks = []) = (ks = [])"
  by (simp add: weighted_items_def)

lemma weighted_pick_mem:
  assumes "table (quiz.app q) \<noteq> []"
  shows "\<exists>k g. weighted_pick q = Inr (k, g) \<and> map_of (table (quiz.app q)) k \<noteq> None"
proof (cases "quiz_filtered_kana q = []")
  case True
  from assms have "map fst (table (quiz.app q)) \<noteq> []" by simp
  from random_choice_mem[OF this, of "rng (quiz.app q)"] obtain x g' where
    "random_choice (map fst (table (quiz.app q))) (rng (quiz.app q)) = Inr (x, g')"
    "x \<in> set (map fst (table (quiz.app q)))" by blast
  moreover from this have "map_of (table (quiz.app q)) x \<noteq> None"
    by (simp only: map_of_keys)
  ultimately show ?thesis using True
    by (simp add: weighted_pick_def Let_def)
next
  case False
  let ?items = "weighted_items (quiz.app q) (quiz_filtered_kana q)"
  let ?r = "fst (random_random (rng (quiz.app q))) * sum_list (map snd ?items)"
  have sub: "set (quiz_filtered_kana q) \<subseteq> set (map fst (table (quiz.app q)))"
    by (auto simp: quiz_filtered_kana_def Let_def)
  have "(case pick_loop ?items ?r 0 of Some k \<Rightarrow> k | None \<Rightarrow> fst (last ?items))
          \<in> set (quiz_filtered_kana q)"
  proof (cases "pick_loop ?items ?r 0")
    case None
    have "fst (last ?items) = last (quiz_filtered_kana q)"
      using False by (simp add: weighted_items_def last_map)
    with None False show ?thesis by simp
  next
    case (Some k)
    from pick_loop_mem[OF Some] have "k \<in> set (quiz_filtered_kana q)" by simp
    with Some show ?thesis by simp
  qed
  with sub have "map_of (table (quiz.app q))
      (case pick_loop ?items ?r 0 of Some k \<Rightarrow> k | None \<Rightarrow> fst (last ?items)) \<noteq> None"
    by (simp only: map_of_keys) blast
  with False show ?thesis
    by (simp add: weighted_pick_def Let_def case_prod_beta)
qed

lemma filter_neq_absent: "c \<notin> set ys \<Longrightarrow> filter (\<lambda>r. r \<noteq> c) ys = ys"
  by (induction ys) auto

lemma length_filter_neq: "distinct ys \<Longrightarrow> length ys - 1 \<le> length (filter (\<lambda>r. r \<noteq> c) ys)"
  by (induction ys) (auto simp: filter_neq_absent)

lemma pick_question_total:
  assumes "4 \<le> length (remdups (map snd (table (quiz.app q))))"
  shows "\<exists>q'. pick_question q = Inr q'"
proof -
  from assms have "table (quiz.app q) \<noteq> []" by auto
  from weighted_pick_mem[OF this] obtain k g1 where
    wp: "weighted_pick q = Inr (k, g1)" and k: "map_of (table (quiz.app q)) k \<noteq> None"
    by blast
  from k obtain c where c: "getitem (table (quiz.app q)) k = Inr c"
    by (auto simp: getitem_def)
  let ?wrongs = "filter (\<lambda>r. r \<noteq> c) (remdups (map snd (table (quiz.app q))))"
  let ?w' = "fst (random_shuffle ?wrongs g1)"
  let ?g2 = "snd (random_shuffle ?wrongs g1)"
  let ?opts = "fst (random_shuffle (c # take 3 ?w') ?g2)"
  have "3 \<le> length ?wrongs"
    using length_filter_neq[of "remdups (map snd (table (quiz.app q)))" c] assms by simp
  then have len: "length ?opts = 4"
    by (simp add: random_shuffle_length)
  have "c \<in> set ?opts" by (simp add: random_shuffle_set)
  from list_index_mem[OF this] obtain i where "list_index ?opts c = Inr i" by blast
  with wp c len show ?thesis
    by (simp add: pick_question_def Let_def case_prod_beta)
qed

lemma best_int_Some: "(best_int s a = Some b) = (stored_best s a = Some (JInt b))"
  by (auto simp: best_int_def split: option.splits json.splits)

lemma stored_best_progress: "progress a = progress a' \<Longrightarrow> stored_best s a = stored_best s a'"
  by (simp add: stored_best_def)

lemma mastery_progress: "progress a = progress a' \<Longrightarrow> mastery s k a = mastery s k a'"
  by (simp add: mastery_def)

lemma quiz_choose_total:
  assumes "quiz_ready q"
  shows "\<exists>q'. quiz_choose w idx q = Inr q'"
proof -
  from assms obtain b where b: "stored_best (script_name (quiz.app q)) (quiz.app q) = Some (JInt b)"
    and tb: "4 \<le> length (remdups (map snd (table (quiz.app q))))"
    and k: "map_of (table (quiz.app q)) (quiz.kana q) \<noteq> None"
    by (auto simp: quiz_ready_def best_int_Some)
  show ?thesis
  proof (cases "idx = quiz.correct_idx q")
    case True
    from update_best_int[OF b, of "quiz.streak q + 1"] obtain a1 where
      u: "update_best (quiz.streak q + 1) (quiz.app q) = Inr a1" by blast
    have "\<exists>q'. pick_question (q\<lparr>quiz.streak := quiz.streak q + 1, quiz.score := quiz.streak q + 1,
        quiz.feedback := str ''Correct'', quiz.app := bump_mastery (quiz.kana q) 1 a1,
        quiz.feedback_timer := 45,
        quiz.app := app_save w (bump_mastery (quiz.kana q) 1 a1),
        quiz.rounds := quiz.rounds q + 1\<rparr>) = Inr q'"
      by (rule pick_question_total) (simp add: update_best_fields[OF u] tb)
    with True u show ?thesis by (simp add: quiz_choose_def Let_def)
  next
    case False
    from k obtain r where g: "getitem (table (quiz.app q)) (quiz.kana q) = Inr r"
      by (auto simp: getitem_def)
    have "\<exists>q'. pick_question (q\<lparr>quiz.streak := 0, quiz.score := 0,
        quiz.feedback := r, quiz.app := bump_mastery (quiz.kana q) (- 1) (quiz.app q),
        quiz.feedback_timer := 45,
        quiz.app := app_save w (bump_mastery (quiz.kana q) (- 1) (quiz.app q)),
        quiz.rounds := quiz.rounds q + 1\<rparr>) = Inr q'"
      by (rule pick_question_total) (simp add: tb)
    with False g show ?thesis by (simp add: quiz_choose_def Let_def)
  qed
qed

lemma quiz_choose_step:
  assumes r: "quiz_ready q"
    and b: "best_int (script_name (quiz.app q)) (quiz.app q) = Some b"
  shows "\<exists>q'. quiz_choose w idx q = Inr q' \<and> quiz_ready q'
     \<and> script_name (quiz.app q') = script_name (quiz.app q)
     \<and> quiz.streak q' = (if idx = quiz.correct_idx q then quiz.streak q + 1 else 0)
     \<and> quiz.score q' = quiz.streak q'
     \<and> (\<forall>s k. mastery s k (quiz.app q') =
          (if s = script_name (quiz.app q) \<and> k = quiz.kana q
           then max 1 (min 10 (mastery s k (quiz.app q) + (if idx = quiz.correct_idx q then 1 else - 1)))
           else mastery s k (quiz.app q)))
     \<and> (\<forall>s. stored_best s (quiz.app q') =
          (if s = script_name (quiz.app q) \<and> idx = quiz.correct_idx q \<and> b < quiz.streak q + 1
           then Some (JInt (quiz.streak q + 1)) else stored_best s (quiz.app q)))
     \<and> disk (quiz.app q') = save_progress w (progress (quiz.app q')) (disk (quiz.app q))"
proof -
  from quiz_choose_total[OF r] obtain q' where c: "quiz_choose w idx q = Inr q'" by blast
  from b have sb: "stored_best (script_name (quiz.app q)) (quiz.app q) = Some (JInt b)"
    by (simp add: best_int_Some)
  from quiz_choose_Inr[OF c] obtain a1 where
    a1: "if idx = quiz.correct_idx q
         then update_best (quiz.streak q + 1) (quiz.app q) = Inr a1
         else a1 = quiz.app q \<and> map_of (table (quiz.app q)) (quiz.kana q) \<noteq> None"
    and p: "progress (quiz.app q') =
              progress (bump_mastery (quiz.kana q) (if idx = quiz.correct_idx q then 1 else - 1) a1)"
    and rest: "script_name (quiz.app q') = script_name (quiz.app q)"
      "table (quiz.app q') = table (quiz.app q)"
      "map_of (table (quiz.app q')) (quiz.kana q') \<noteq> None"
      "disk (quiz.app q') = save_progress w (progress (quiz.app q')) (disk (quiz.app q))"
      "quiz.streak q' = (if idx = quiz.correct_idx q then quiz.streak q + 1 else 0)"
      "quiz.score q' = quiz.streak q'"
    by blast
  have sn: "script_name a1 = script_name (quiz.app q)"
    and m1: "\<And>s k. mastery s k a1 = mastery s k (quiz.app q)"
    and s1: "\<And>s. stored_best s a1 =
          (if s = script_name (quiz.app q) \<and> idx = quiz.correct_idx q \<and> b < quiz.streak q + 1
           then Some (JInt (quiz.streak q + 1)) else stored_best s (quiz.app q))"
    using a1 update_best_fields[of "quiz.streak q + 1" "quiz.app q" a1]
      update_best_int[OF sb, of "quiz.streak q + 1"]
    by (auto split: if_splits)
  have m: "\<And>s k. mastery s k (quiz.app q') =
          (if s = script_name (quiz.app q) \<and> k = quiz.kana q
           then max 1 (min 10 (mastery s k (quiz.app q) + (if idx = quiz.correct_idx q then 1 else - 1)))
           else mastery s k (quiz.app q))"
    by (simp add: mastery_progress[OF p] mastery_bump sn m1)
  have s: "\<And>s. stored_best s (quiz.app q') =
          (if s = script_name (quiz.app q) \<and> idx = quiz.correct_idx q \<and> b < quiz.streak q + 1
           then Some (JInt (quiz.streak q + 1)) else stored_best s (quiz.app q))"
    by (simp add: stored_best_progress[OF p] s1)
  have "quiz_ready q'"
    using r rest s[of "script_name (quiz.app q)"] sb
    by (auto simp: quiz_ready_def best_int_def)
  with c rest m s show ?thesis by simp
qed

subsection \<open>The typing scene's answers\<close>

lemma random_random_snd: "snd (random_random g) = snd (rng_next g)"
  by (simp add: random_random_def case_prod_beta)

lemma pick_empty: "kana_list t = [] \<Longrightarrow> pick t = (None, snd (rng_next (rng (typemode.app t))))"
  by (simp add: pick_def Let_def case_prod_beta weighted_items_def random_random_snd)

lemma pick_mem:
  assumes "kana_list t \<noteq> []"
  shows "\<exists>k. fst (pick t) = Some k \<and> k \<in> set (kana_list t)"
proof -
  let ?items = "weighted_items (typemode.app t) (kana_list t)"
  let ?x = "fst (random_random (rng (typemode.app t))) * sum_list (map snd ?items)"
  show ?thesis
  proof (cases "pick_loop ?items ?x 0")
    case None
    have "fst (last ?items) = last (kana_list t)"
      using assms by (simp add: weighted_items_def last_map)
    with None assms show ?thesis by (simp add: pick_def Let_def case_prod_beta)
  next
    case (Some k)
    from pick_loop_mem[OF Some] have "k \<in> set (kana_list t)" by simp
    with Some show ?thesis by (simp add: pick_def Let_def case_prod_beta)
  qed
qed

lemma pick_mem':
  "kana_list t = ks \<Longrightarrow> ks \<noteq> [] \<Longrightarrow> \<exists>k. fst (pick t) = Some k \<and> k \<in> set ks"
  using pick_mem[of t] by simp

lemma handle_submit_kana_Inr:
  assumes "handle_submit w t = Inr t'" and "\<not> word_mode t"
  shows "\<exists>k c a1. typemode.kana t = Some k \<and> map_of (table (typemode.app t)) k = Some c
          \<and> (if guess_of (input_text t) = c
              then update_best (typemode.streak t + 1) (typemode.app t) = Inr a1
              else a1 = typemode.app t)
          \<and> progress (typemode.app t') =
              progress (bump_mastery k (if guess_of (input_text t) = c then 1 else - 1) a1)
          \<and> script_name (typemode.app t') = script_name (typemode.app t)
          \<and> table (typemode.app t') = table (typemode.app t)
          \<and> disk (typemode.app t') = save_progress w (progress (typemode.app t')) (disk (typemode.app t))
          \<and> typemode.streak t' = (if guess_of (input_text t) = c then typemode.streak t + 1 else 0)
          \<and> typemode.score t' = typemode.streak t'
          \<and> kana_list t' = kana_list t \<and> word_mode t' = word_mode t \<and> input_text t' = []
          \<and> (kana_list t \<noteq> [] \<longrightarrow> (\<exists>k'. typemode.kana t' = Some k' \<and> k' \<in> set (kana_list t)))"
proof -
  from assms obtain k c where k: "typemode.kana t = Some k"
    and c: "map_of (table (typemode.app t)) k = Some c"
    by (auto simp: handle_submit_def Let_def bindr_Inr_iff getitem_def split: option.splits)
  show ?thesis
  proof (cases "guess_of (input_text t) = c")
    case True
    with assms k c obtain a1 where u: "update_best (typemode.streak t + 1) (typemode.app t) = Inr a1"
      by (auto simp: handle_submit_def Let_def bindr_Inr_iff getitem_def)
    from assms k c True u update_best_fields[OF u] show ?thesis
      by (auto simp: handle_submit_def Let_def getitem_def case_prod_beta app_save_def
          intro!: pick_mem')
  next
    case False
    with assms k c show ?thesis
      by (auto simp: handle_submit_def Let_def getitem_def case_prod_beta app_save_def
          intro!: pick_mem')
  qed
qed

lemma handle_submit_kana_total:
  assumes "type_ready t"
  shows "\<exists>t'. handle_submit w t = Inr t'"
proof -
  from assms obtain k c b where k: "typemode.kana t = Some k"
    and c: "map_of (table (typemode.app t)) k = Some c"
    and b: "stored_best (script_name (typemode.app t)) (typemode.app t) = Some (JInt b)"
    and wm: "\<not> word_mode t"
    by (auto simp: type_ready_def best_int_Some split: option.splits)
  from update_best_int[OF b, of "typemode.streak t + 1"] obtain a1 where
    "update_best (typemode.streak t + 1) (typemode.app t) = Inr a1" by blast
  with k c wm show ?thesis
    by (simp add: handle_submit_def Let_def getitem_def case_prod_beta)
qed

lemma handle_submit_step:
  assumes r: "type_ready t"
    and b: "best_int (script_name (typemode.app t)) (typemode.app t) = Some b"
    and k: "typemode.kana t = Some k"
    and c: "map_of (table (typemode.app t)) k = Some c"
  shows "\<exists>t'. handle_submit w t = Inr t' \<and> type_ready t'
     \<and> script_name (typemode.app t') = script_name (typemode.app t)
     \<and> typemode.streak t' = (if guess_of (input_text t) = c then typemode.streak t + 1 else 0)
     \<and> typemode.score t' = typemode.streak t'
     \<and> (\<forall>s k'. mastery s k' (typemode.app t') =
          (if s = script_name (typemode.app t) \<and> k' = k
           then max 1 (min 10 (mastery s k' (typemode.app t)
                  + (if guess_of (input_text t) = c then 1 else - 1)))
           else mastery s k' (typemode.app t)))
     \<and> (\<forall>s. stored_best s (typemode.app t') =
          (if s = script_name (typemode.app t) \<and> guess_of (input_text t) = c
              \<and> b < typemode.streak t + 1
           then Some (JInt (typemode.streak t + 1)) else stored_best s (typemode.app t)))
     \<and> disk (typemode.app t') = save_progress w (progress (typemode.app t')) (disk (typemode.app t))"
proof -
  let ?ok = "guess_of (input_text t) = c"
  from handle_submit_kana_total[OF r] obtain t' where h: "handle_submit w t = Inr t'" by blast
  from r have wm: "\<not> word_mode t" and kl: "kana_list t \<noteq> []"
    and ks: "list_all (\<lambda>k. map_of (table (typemode.app t)) k \<noteq> None) (kana_list t)"
    by (simp_all add: type_ready_def)
  from b have sb: "stored_best (script_name (typemode.app t)) (typemode.app t) = Some (JInt b)"
    by (simp add: best_int_Some)
  from handle_submit_kana_Inr[OF h wm] k c kl obtain a1 k' where
    a1: "if ?ok then update_best (typemode.streak t + 1) (typemode.app t) = Inr a1
         else a1 = typemode.app t"
    and p: "progress (typemode.app t') = progress (bump_mastery k (if ?ok then 1 else - 1) a1)"
    and rest: "script_name (typemode.app t') = script_name (typemode.app t)"
      "table (typemode.app t') = table (typemode.app t)"
      "disk (typemode.app t') = save_progress w (progress (typemode.app t')) (disk (typemode.app t))"
      "typemode.streak t' = (if ?ok then typemode.streak t + 1 else 0)"
      "typemode.score t' = typemode.streak t'"
      "kana_list t' = kana_list t" "word_mode t' = word_mode t"
    and k': "typemode.kana t' = Some k'" "k' \<in> set (kana_list t)"
    by auto
  have sn: "script_name a1 = script_name (typemode.app t)"
    and m1: "\<And>s k. mastery s k a1 = mastery s k (typemode.app t)"
    and s1: "\<And>s. stored_best s a1 =
          (if s = script_name (typemode.app t) \<and> ?ok \<and> b < typemode.streak t + 1
           then Some (JInt (typemode.streak t + 1)) else stored_best s (typemode.app t))"
    using a1 update_best_fields[of "typemode.streak t + 1" "typemode.app t" a1]
      update_best_int[OF sb, of "typemode.streak t + 1"]
    by (auto split: if_splits)
  have m: "\<And>s k'. mastery s k' (typemode.app t') =
          (if s = script_name (typemode.app t) \<and> k' = k
           then max 1 (min 10 (mastery s k' (typemode.app t) + (if ?ok then 1 else - 1)))
           else mastery s k' (typemode.app t))"
    by (simp add: mastery_progress[OF p] mastery_bump sn m1)
  have s: "\<And>s. stored_best s (typemode.app t') =
          (if s = script_name (typemode.app t) \<and> ?ok \<and> b < typemode.streak t + 1
           then Some (JInt (typemode.streak t + 1)) else stored_best s (typemode.app t))"
    by (simp add: stored_best_progress[OF p] s1)
  from ks k' have "map_of (table (typemode.app t)) k' \<noteq> None"
    by (simp add: list_all_iff)
  then have "type_ready t'"
    using r rest k' s[of "script_name (typemode.app t)"] sb
    by (auto simp: type_ready_def best_int_def)
  with h rest m s show ?thesis by simp
qed

text \<open>A submit in word mode always returns, and touches neither the progress nor the file.\<close>

lemma handle_submit_word:
  assumes "word_mode t"
  shows "\<exists>t'. handle_submit w t = Inr t'
     \<and> progress (typemode.app t') = progress (typemode.app t)
     \<and> disk (typemode.app t') = disk (typemode.app t)
     \<and> script_name (typemode.app t') = script_name (typemode.app t)
     \<and> word_mode t'
     \<and> typemode.streak t' =
         (if word t = None \<or> word t = Some [] then typemode.streak t
          else if guess_of (input_text t) = remove_spaces (word_romaji t) then typemode.streak t + 1
          else 0)
     \<and> typemode.score t' =
         (if word t = None \<or> word t = Some [] then typemode.score t else typemode.streak t')"
proof (cases "word_list t = []")
  case True
  with assms show ?thesis by (simp add: handle_submit_def Let_def)
next
  case False
  from random_choice_mem[OF False] obtain wd g' where
    "random_choice (word_list t) (rng (typemode.app t)) = Inr (wd, g')" by blast
  with assms False show ?thesis
    by (simp add: handle_submit_def Let_def pick_word_def)
qed

subsection \<open>The best score along a run of answers\<close>




lemma type_ready_input [simp]: "type_ready (t\<lparr>input_text := x\<rparr>) = type_ready t"
  by (cases "typemode.kana t") (simp_all add: type_ready_def)


subsection \<open>The text that is compared\<close>

lemma isspace_lower_char [simp]: "py_isspace (lower_char c) = py_isspace c"
  by (auto simp: py_isspace_def lower_char_def)

lemma lower_upper_char [simp]: "lower_char (upper_char c) = lower_char c"
  by (auto simp: lower_char_def upper_char_def)





subsection \<open>Loading what was saved\<close>

lemma key_literals_neq [simp]:
  "str ''hiragana'' \<noteq> str ''katakana''"
  "str ''katakana'' \<noteq> str ''hiragana''"
  "str ''hiragana'' \<noteq> best_score_key"
  "str ''katakana'' \<noteq> best_score_key"
  "best_score_key \<noteq> str ''hiragana''"
  "best_score_key \<noteq> str ''katakana''"
  by (simp_all add: str_def best_score_key_def)












lemma default_progress_range [simp]:
  "mastery_map s default_progress = []"
  "map_of (best_score default_progress) (script_key s) = Some (JInt 0)"
  by (cases s; simp add: default_progress_def)+


lemma load_progress_Doc:
  "load_progress si (Doc data) = (case load_data si data of Inl e \<Rightarrow> default_progress | Inr p \<Rightarrow> p)"
  by (simp add: load_progress_def)





section \<open>The claims\<close>

subsection \<open>Weights\<close>

text \<open>
  C1. The claim: for mastery 1 to 10 the weight \<open>(6 - m)\<^sup>2 + 0.01\<close> decreases strictly
  from 1 to 5, is flat and minimal from 5 on, and is positive. The weight is positive
  (\<open>choice_weight_pos\<close>) and decreases strictly up to 6 (\<open>choice_weight_decreasing\<close>),
  but it is neither flat nor minimal from 5 on: the least weight is at 6, and from there
  the weight rises again (\<open>choice_weight_increasing\<close>), so that a kana of mastery 10
  weighs more than one of mastery 5.
  The source's own comment wants a higher mastery to weigh less.
\<close>

theorem choice_weight_rises_above_six:
  "choice_weight 5 = 101 / 100 \<and> choice_weight 6 = 1 / 100 \<and> choice_weight 7 = 101 / 100
   \<and> choice_weight 10 = 1601 / 100 \<and> choice_weight 5 < choice_weight 10"
  by (simp add: choice_weight_def)




subsection \<open>Loading and saving\<close>

text \<open>
  C8. When the progress file is absent, cannot be opened or does not parse,
  \<open>load_progress\<close> returns the default empty state. (It returns a state for every
  file: the function has no result but a progress.)
\<close>

theorem load_progress_defaults_on_failure:
  "load_progress si Absent = default_progress
   \<and> load_progress si Unreadable = default_progress
   \<and> load_progress si Garbage = default_progress"
  by (simp add: load_progress_def)

subsection \<open>Answers\<close>

text \<open>
  C3. A correct answer sets the mastery of the kana asked to
  \<open>clamp (old + 1)\<close>, an incorrect one to \<open>clamp (old - 1)\<close>, the clamp being to
  \<open>[1, 10]\<close> and the old value 1 for a kana not yet stored; so the mastery never
  exceeds 10 after a correct and never falls below 1 after an incorrect answer. This
  holds of \<open>bump_mastery\<close> for every kana and every stored value, and of both answer
  handlers, which return in every state that shows a question.
\<close>

theorem answer_updates_mastery_clamped:
  assumes "quiz_ready q" and "type_ready t" and "typemode.kana t = Some k"
    and "map_of (table (typemode.app t)) k = Some c"
  shows "mastery (script_name a) kn (bump_mastery kn 1 a)
           = max 1 (min 10 (mastery (script_name a) kn a + 1))
       \<and> mastery (script_name a) kn (bump_mastery kn (- 1) a)
           = max 1 (min 10 (mastery (script_name a) kn a - 1))
       \<and> mastery (script_name a) kn (bump_mastery kn 1 a) \<le> 10
       \<and> 1 \<le> mastery (script_name a) kn (bump_mastery kn (- 1) a)
       \<and> (\<exists>q'. quiz_choose w idx q = Inr q'
            \<and> mastery (script_name (quiz.app q)) (quiz.kana q) (quiz.app q')
                = max 1 (min 10 (mastery (script_name (quiz.app q)) (quiz.kana q) (quiz.app q)
                                  + (if idx = quiz.correct_idx q then 1 else - 1))))
       \<and> (\<exists>t'. handle_submit w t = Inr t'
            \<and> mastery (script_name (typemode.app t)) k (typemode.app t')
                = max 1 (min 10 (mastery (script_name (typemode.app t)) k (typemode.app t)
                                  + (if guess_of (input_text t) = c then 1 else - 1))))"
proof -
  from assms(1) obtain b where "best_int (script_name (quiz.app q)) (quiz.app q) = Some b"
    by (auto simp: quiz_ready_def)
  from quiz_choose_step[OF assms(1) this, of w idx] obtain q' where
    q: "quiz_choose w idx q = Inr q'"
    "\<forall>s k. mastery s k (quiz.app q') =
          (if s = script_name (quiz.app q) \<and> k = quiz.kana q
           then max 1 (min 10 (mastery s k (quiz.app q) + (if idx = quiz.correct_idx q then 1 else - 1)))
           else mastery s k (quiz.app q))"
    by blast
  from assms(2) obtain b' where "best_int (script_name (typemode.app t)) (typemode.app t) = Some b'"
    by (auto simp: type_ready_def)
  from handle_submit_step[OF assms(2) this assms(3,4), of w] obtain t' where
    t: "handle_submit w t = Inr t'"
    "\<forall>s k'. mastery s k' (typemode.app t') =
          (if s = script_name (typemode.app t) \<and> k' = k
           then max 1 (min 10 (mastery s k' (typemode.app t)
                  + (if guess_of (input_text t) = c then 1 else - 1)))
           else mastery s k' (typemode.app t))"
    by blast
  from q t show ?thesis by (simp add: mastery_bump)
qed

text \<open>
  The quiz answered correctly, and the typing scene answered with \<^verbatim>\<open>x\<close> where
  \<^verbatim>\<open>a\<close> is expected, both on U+3042 of mastery 1.
\<close>

theorem answer_updates_mastery_clamped_witness:
  "quiz_ready demo_quiz \<and> type_ready demo_type \<and> typemode.kana demo_type = Some [12354]
   \<and> map_of (table (typemode.app demo_type)) [12354] = Some (str ''a'')
   \<and> mastery Hiragana [12354] (bump_mastery [12354] 1 demo_app) = 2
   \<and> mastery Hiragana [12354] (bump_mastery [12354] (- 1) demo_app) = 1
   \<and> (\<exists>q'. quiz_choose WriteOk 0 demo_quiz = Inr q' \<and> mastery Hiragana [12354] (quiz.app q') = 2)
   \<and> (\<exists>t'. handle_submit WriteOk (demo_type\<lparr>input_text := str ''x''\<rparr>) = Inr t'
         \<and> mastery Hiragana [12354] (typemode.app t') = 1)"
proof -
  have r: "quiz_ready demo_quiz" "type_ready (demo_type\<lparr>input_text := str ''x''\<rparr>)"
    "type_ready demo_type"
    by (simp_all add: quiz_ready_def type_ready_def demo_quiz_def demo_type_def demo_app_def
        demo_table_def str_def best_int_def stored_best_def default_progress_def)
  have k: "typemode.kana (demo_type\<lparr>input_text := str ''x''\<rparr>) = Some [12354]"
    "map_of (table (typemode.app (demo_type\<lparr>input_text := str ''x''\<rparr>))) [12354] = Some (str ''a'')"
    by (simp_all add: demo_type_def demo_app_def demo_table_def)
  have m: "mastery Hiragana [12354] demo_app = 1"
    by (simp add: mastery_def demo_app_def default_progress_def)
  have g: "guess_of (str ''x'') \<noteq> str ''a''"
    by (simp add: guess_of_def remove_spaces_def py_lower_def py_strip_def py_isspace_def
        lower_char_def str_def)
  from answer_updates_mastery_clamped[OF r(1) r(2) k, of demo_app "[12354]" WriteOk 0] r k m g
  show ?thesis
    by (simp add: demo_quiz_def demo_type_def demo_app_def)
qed



text \<open>
  C7. A submit in word mode returns, and leaves the progress (so the best score of
  every script) and the save file as they were. When a word is shown, the streak goes up
  by one on the expected romaji and back to zero otherwise, and the score is the streak:
  the rule of the kana branch, stated here for a scene \<open>u\<close> that shows a kana. When no
  word is shown (\<^verbatim>\<open>No words available!\<close>) streak and score stay.
\<close>

theorem word_mode_submit_keeps_best:
  assumes "word_mode t"
    and "type_ready u" and "typemode.kana u = Some k" and "map_of (table (typemode.app u)) k = Some c"
  shows "(\<exists>t'. handle_submit w t = Inr t'
           \<and> progress (typemode.app t') = progress (typemode.app t)
           \<and> stored_best s (typemode.app t') = stored_best s (typemode.app t)
           \<and> disk (typemode.app t') = disk (typemode.app t)
           \<and> (if word t = None \<or> word t = Some []
               then typemode.streak t' = typemode.streak t \<and> typemode.score t' = typemode.score t
               else typemode.streak t' =
                      (if guess_of (input_text t) = remove_spaces (word_romaji t)
                       then typemode.streak t + 1 else 0)
                    \<and> typemode.score t' = typemode.streak t'))
       \<and> (\<exists>u'. handle_submit w u = Inr u'
           \<and> typemode.streak u' = (if guess_of (input_text u) = c then typemode.streak u + 1 else 0)
           \<and> typemode.score u' = typemode.streak u')"
proof -
  from handle_submit_word[OF assms(1), of w] obtain t' where
    t: "handle_submit w t = Inr t'" "progress (typemode.app t') = progress (typemode.app t)"
    "disk (typemode.app t') = disk (typemode.app t)"
    "typemode.streak t' =
         (if word t = None \<or> word t = Some [] then typemode.streak t
          else if guess_of (input_text t) = remove_spaces (word_romaji t) then typemode.streak t + 1
          else 0)"
    "typemode.score t' =
         (if word t = None \<or> word t = Some [] then typemode.score t else typemode.streak t')"
    by blast
  from assms(2) obtain b where "best_int (script_name (typemode.app u)) (typemode.app u) = Some b"
    by (auto simp: type_ready_def)
  from handle_submit_step[OF assms(2) this assms(3,4), of w] obtain u' where
    u: "handle_submit w u = Inr u'"
    "typemode.streak u' = (if guess_of (input_text u) = c then typemode.streak u + 1 else 0)"
    "typemode.score u' = typemode.streak u'"
    by blast
  from t have "\<exists>t'. handle_submit w t = Inr t'
           \<and> progress (typemode.app t') = progress (typemode.app t)
           \<and> stored_best s (typemode.app t') = stored_best s (typemode.app t)
           \<and> disk (typemode.app t') = disk (typemode.app t)
           \<and> (if word t = None \<or> word t = Some []
               then typemode.streak t' = typemode.streak t \<and> typemode.score t' = typemode.score t
               else typemode.streak t' =
                      (if guess_of (input_text t) = remove_spaces (word_romaji t)
                       then typemode.streak t + 1 else 0)
                    \<and> typemode.score t' = typemode.streak t')"
    by (auto simp: stored_best_def)
  with u show ?thesis by blast
qed

text \<open>
  Word mode asking for the word U+3042 U+3044 (\<^verbatim>\<open>ai\<close>), answered with \<^verbatim>\<open>" A i"\<close>;
  and the kana scene asking for U+3042, answered with the empty text.
\<close>

theorem word_mode_submit_keeps_best_witness:
  "word_mode (demo_type\<lparr>word_mode := True, word_list := [[12354, 12356]],
                       word := Some [12354, 12356], word_romaji := str ''ai'',
                       input_text := str '' A i''\<rparr>)
   \<and> type_ready demo_type \<and> typemode.kana demo_type = Some [12354]
   \<and> map_of (table (typemode.app demo_type)) [12354] = Some (str ''a'')
   \<and> (\<exists>t'. handle_submit WriteOk
              (demo_type\<lparr>word_mode := True, word_list := [[12354, 12356]],
                         word := Some [12354, 12356], word_romaji := str ''ai'',
                         input_text := str '' A i''\<rparr>) = Inr t'
          \<and> progress (typemode.app t') = default_progress
          \<and> stored_best Hiragana (typemode.app t') = Some (JInt 0)
          \<and> disk (typemode.app t') = Absent
          \<and> typemode.streak t' = 1 \<and> typemode.score t' = 1)
   \<and> (\<exists>u'. handle_submit WriteOk demo_type = Inr u'
          \<and> typemode.streak u' = 0 \<and> typemode.score u' = 0)"
proof -
  let ?t = "demo_type\<lparr>word_mode := True, word_list := [[12354, 12356]],
                       word := Some [12354, 12356], word_romaji := str ''ai'',
                       input_text := str '' A i''\<rparr>"
  have w: "word_mode ?t" by simp
  have r: "type_ready demo_type"
    by (simp add: type_ready_def demo_type_def demo_app_def demo_table_def str_def best_int_def
        stored_best_def default_progress_def)
  have k: "typemode.kana demo_type = Some [12354]"
    "map_of (table (typemode.app demo_type)) [12354] = Some (str ''a'')"
    by (simp_all add: demo_type_def demo_app_def demo_table_def)
  have g: "guess_of (str '' A i'') = str ''ai''" "remove_spaces (str ''ai'') = str ''ai''"
    "guess_of [] \<noteq> str ''a''"
    by (simp_all add: guess_of_def remove_spaces_def py_lower_def py_strip_def py_isspace_def
        lower_char_def str_def)
  have d: "progress (typemode.app demo_type) = default_progress"
    "disk (typemode.app demo_type) = Absent" "typemode.streak demo_type = 0"
    "input_text demo_type = []"
    "stored_best Hiragana (typemode.app demo_type) = Some (JInt 0)"
    by (simp_all add: demo_type_def demo_app_def stored_best_def default_progress_def)
  from word_mode_submit_keeps_best[OF w r k, of WriteOk Hiragana] w r k g d
  show ?thesis by auto
qed



subsection \<open>The progress file, continued\<close>






subsection \<open>Selection without candidates\<close>

text \<open>
  C4. The claim: with an empty candidate set each selector fails or falls back to a pick
  from the whole table. The typing scene's selector does neither: it returns
  \<^verbatim>\<open>None\<close>, which the scene shows as \<^verbatim>\<open>No kana selected!\<close>.
\<close>

theorem pick_empty_counterexample:
  "kana_list (demo_type\<lparr>kana_list := []\<rparr>) = []
   \<and> table (typemode.app (demo_type\<lparr>kana_list := []\<rparr>)) \<noteq> []
   \<and> pick (demo_type\<lparr>kana_list := []\<rparr>) = (None, \<lambda>i. 0)"
  by (simp add: pick_empty demo_type_def demo_app_def demo_table_def rng_next_def)

text \<open>
  C4 as amended. With no candidates, the quiz's selector is \<^verbatim>\<open>random.choice\<close> over
  the keys of the table: it raises \<^verbatim>\<open>IndexError\<close> when the table is empty, and else
  returns the key whose index the generator's next draw gives; the typing scene's
  selector returns \<^verbatim>\<open>None\<close>. Both consume one draw, and both results are functions
  of the generator's state.
\<close>

theorem empty_candidates_selection:
  assumes "quiz_filtered_kana q = []" and "kana_list t = []"
  shows "weighted_pick q = random_choice (map fst (table (quiz.app q))) (rng (quiz.app q))
       \<and> weighted_pick q =
           (if table (quiz.app q) = [] then Inl IndexError
            else Inr (map fst (table (quiz.app q))
                        ! (rng (quiz.app q) 0 mod length (table (quiz.app q))),
                      \<lambda>i. rng (quiz.app q) (Suc i)))
       \<and> pick t = (None, \<lambda>i. rng (typemode.app t) (Suc i))"
  using assms
  by (simp add: weighted_pick_def Let_def random_choice_def randbelow_def rng_next_def pick_empty)

text \<open>
  The quiz with no group selected, over the table and over an empty table, and the
  typing scene with no candidates; the generator draws 0.
\<close>

theorem empty_candidates_selection_witness:
  "quiz_filtered_kana (demo_quiz\<lparr>quiz.selected_groups := [False]\<rparr>) = []
   \<and> kana_list (demo_type\<lparr>kana_list := []\<rparr>) = []
   \<and> weighted_pick (demo_quiz\<lparr>quiz.selected_groups := [False]\<rparr>) = Inr ([12354], \<lambda>i. 0)
   \<and> quiz_filtered_kana (demo_quiz\<lparr>quiz.selected_groups := [False],
                                    quiz.app := demo_app\<lparr>table := []\<rparr>\<rparr>) = []
   \<and> weighted_pick (demo_quiz\<lparr>quiz.selected_groups := [False],
                              quiz.app := demo_app\<lparr>table := []\<rparr>\<rparr>) = Inl IndexError
   \<and> pick (demo_type\<lparr>kana_list := []\<rparr>) = (None, \<lambda>i. 0)"
proof -
  let ?q = "demo_quiz\<lparr>quiz.selected_groups := [False]\<rparr>"
  let ?q' = "demo_quiz\<lparr>quiz.selected_groups := [False], quiz.app := demo_app\<lparr>table := []\<rparr>\<rparr>"
  let ?t = "demo_type\<lparr>kana_list := []\<rparr>"
  have f: "quiz_filtered_kana ?q = []" "quiz_filtered_kana ?q' = []"
    by (simp_all add: quiz_filtered_kana_def demo_quiz_def)
  have k: "kana_list ?t = []" by simp
  from empty_candidates_selection[OF f(1) k]
  have a: "weighted_pick ?q =
           (if table (quiz.app ?q) = [] then Inl IndexError
            else Inr (map fst (table (quiz.app ?q))
                        ! (rng (quiz.app ?q) 0 mod length (table (quiz.app ?q))),
                      \<lambda>i. rng (quiz.app ?q) (Suc i)))"
    "pick ?t = (None, \<lambda>i. rng (typemode.app ?t) (Suc i))"
    by blast+
  from empty_candidates_selection[OF f(2) k]
  have b: "weighted_pick ?q' =
           (if table (quiz.app ?q') = [] then Inl IndexError
            else Inr (map fst (table (quiz.app ?q'))
                        ! (rng (quiz.app ?q') 0 mod length (table (quiz.app ?q'))),
                      \<lambda>i. rng (quiz.app ?q') (Suc i)))"
    by blast
  from a b f k show ?thesis
    by (simp add: demo_quiz_def demo_type_def demo_app_def demo_table_def)
qed

end
